theory Spec2Isabelle
  imports Complex_Main "HOL-Library.Sublist"
begin

section \<open>JavaScript values as the bridge and the adapter see them\<close>

text \<open>
  Both programs work on values produced by \<open>JSON.parse\<close> and read them without any
  run-time type check (the TypeScript interfaces are casts). A value is therefore one of
  the JSON shapes, or \<open>undefined\<close> for a property that is not there. A number is a
  double: the finite ones are kept as the rational they denote (the two zeros are
  identified; both are falsy), beside NaN and the two infinities. An object is an
  association list whose first binding of a key is the one a property read returns.
\<close>

datatype jsnum = NaN | PosInf | NegInf | Fin rat

datatype json =
    JUndefined
  | JNull
  | JBool bool
  | JNum jsnum
  | JString string
  | JArray "json list"
  | JObject "(string \<times> json) list"

text \<open>A thrown \<open>Error\<close> object; the handlers only ever read its \<open>message\<close>.\<close>

datatype thrown = Error string | TypeError string

fun message :: "thrown \<Rightarrow> string" where
  "message (Error m) = m"
| "message (TypeError m) = m"

text \<open>Truthiness, as \<open>!x\<close>, \<open>x && y\<close>, \<open>x || y\<close> and \<open>if (x)\<close> decide it.\<close>

fun truthy :: "json \<Rightarrow> bool" where
  "truthy JUndefined = False"
| "truthy JNull = False"
| "truthy (JBool b) = b"
| "truthy (JNum n) = (n \<noteq> NaN \<and> n \<noteq> Fin 0)"
| "truthy (JString s) = (s \<noteq> [])"
| "truthy (JArray xs) = True"
| "truthy (JObject kvs) = True"

definition or_js :: "json \<Rightarrow> json \<Rightarrow> json" where
  \<comment> \<open>\<open>a || b\<close>\<close>
  "or_js a b = (if truthy a then a else b)"

text \<open>
  Property reads. \<open>x.k\<close> throws a TypeError on \<open>null\<close> and \<open>undefined\<close>, finds the
  binding of an object, and is \<open>undefined\<close> on every other value: none of the keys the
  two programs read (\<open>messages\<close>, \<open>model\<close>, \<open>options\<close>, \<open>content\<close>, \<open>type\<close>,
  \<open>text\<close>, \<open>id\<close>, \<open>vendor\<close>, \<open>family\<close>, \<open>stream\<close>, \<open>success\<close>, \<open>response\<close>,
  \<open>error\<close>, the three token counters) is a property of a string, a number, a boolean or
  an array. \<open>x?.k\<close> is \<open>undefined\<close> where \<open>x.k\<close> would throw.
\<close>

fun member_of :: "json \<Rightarrow> string \<Rightarrow> json" where
  "member_of (JObject kvs) k = (case map_of kvs k of None \<Rightarrow> JUndefined | Some v \<Rightarrow> v)"
| "member_of _ k = JUndefined"

fun nullish :: "json \<Rightarrow> bool" where
  "nullish JUndefined = True"
| "nullish JNull = True"
| "nullish _ = False"

definition get :: "json \<Rightarrow> string \<Rightarrow> thrown + json" where
  \<comment> \<open>\<open>x.k\<close>\<close>
  "get x k =
     (if nullish x then Inl (TypeError (''Cannot read properties of null or undefined, reading '' @ k))
      else Inr (member_of x k))"

definition opt_get :: "json \<Rightarrow> string \<Rightarrow> json" where
  \<comment> \<open>\<open>x?.k\<close>\<close>
  "opt_get x k = (if nullish x then JUndefined else member_of x k)"

fun is_array :: "json \<Rightarrow> bool" where
  \<comment> \<open>\<open>Array.isArray(x)\<close>\<close>
  "is_array (JArray xs) = True"
| "is_array _ = False"

text \<open>\<open>xs.map(f)\<close> where \<open>f\<close> may throw: the first exception ends the whole map.\<close>

fun map_throw :: "('a \<Rightarrow> 'e + 'b) \<Rightarrow> 'a list \<Rightarrow> 'e + 'b list" where
  "map_throw f [] = Inr []"
| "map_throw f (x # xs) =
     (case f x of
        Inl e \<Rightarrow> Inl e
      | Inr y \<Rightarrow> (case map_throw f xs of Inl e \<Rightarrow> Inl e | Inr ys \<Rightarrow> Inr (y # ys)))"

section \<open>Protocol Adapter: content normalization\<close>

text \<open>
  \<open>vs-llm-fixed.ts\<close>, the callback given to \<open>messages.map\<close> (lines 134-148 of the first
  provider and, character for character, lines 364-377 of the streaming-capable one):
  \<^verbatim>\<open>
  (msg) => {
    let content;
    if (typeof msg.content === 'string') { content = msg.content; }
    else if (Array.isArray(msg.content)) {
      const textPart = msg.content.find((part) => part.type === 'text');
      content = textPart?.text || '';
    } else { content = ''; }
    return { content };
  }
  \<close>
  \<open>find\<close> calls the predicate on the parts from the left and stops at the first hit; the
  predicate reads \<open>part.type\<close>, which throws on a \<open>null\<close> part that is reached.
\<close>

fun find_text_part :: "json list \<Rightarrow> thrown + json" where
  "find_text_part [] = Inr JUndefined"
| "find_text_part (part # parts) =
     (case get part ''type'' of
        Inl e \<Rightarrow> Inl e
      | Inr t \<Rightarrow> if t = JString ''text'' then Inr part else find_text_part parts)"

definition normalizeContent :: "json \<Rightarrow> thrown + json" where
  "normalizeContent msg =
     (case get msg ''content'' of
        Inl e \<Rightarrow> Inl e
      | Inr c \<Rightarrow>
          (case c of
             JString s \<Rightarrow> Inr (JString s)
           | JArray parts \<Rightarrow>
               (case find_text_part parts of
                  Inl e \<Rightarrow> Inl e
                | Inr textPart \<Rightarrow> Inr (or_js (opt_get textPart ''text'') (JString '''')))
           | _ \<Rightarrow> Inr (JString '''')))"

definition normalizeMessage :: "json \<Rightarrow> thrown + json" where
  "normalizeMessage msg =
     (case normalizeContent msg of
        Inl e \<Rightarrow> Inl e
      | Inr content \<Rightarrow> Inr (JObject [(''content'', content)]))"

section \<open>The run-time's conversions\<close>

text \<open>
  \<open>Number(x)\<close> and the string conversion of a template literal follow the language
  standard on every shape but two, which are floating-point algorithms and stay
  parameters: reading a number from a string and printing a number.

  An object or an array is first made a primitive. A parsed object inherits \<open>valueOf\<close>,
  which returns the object itself, and \<open>toString\<close>, which returns
  \<open>[object Object]\<close>; an own property of either name is a JSON value, so it is not
  callable and is passed over. Whichever of the two is asked first, the conversion
  therefore yields \<open>[object Object]\<close> when the object has no own \<open>toString\<close> and throws
  a TypeError when it has one. An array's \<open>toString\<close> joins its elements with commas,
  \<open>null\<close> and \<open>undefined\<close> counting as empty and every other element converted to a
  string in its turn, which throws where that conversion does.
\<close>

record js_prims =
  StringToNumber :: "string \<Rightarrow> jsnum"
  NumberToString :: "jsnum \<Rightarrow> string"

fun join_comma :: "string list \<Rightarrow> string" where
  "join_comma [] = []"
| "join_comma [x] = x"
| "join_comma (x # y # ys) = x @ '','' @ join_comma (y # ys)"

fun ToString :: "js_prims \<Rightarrow> json \<Rightarrow> thrown + string"
  and element_strings :: "js_prims \<Rightarrow> json list \<Rightarrow> thrown + string list" where
  "ToString P JUndefined = Inr ''undefined''"
| "ToString P JNull = Inr ''null''"
| "ToString P (JBool b) = Inr (if b then ''true'' else ''false'')"
| "ToString P (JNum n) = Inr (NumberToString P n)"
| "ToString P (JString s) = Inr s"
| "ToString P (JArray xs) =
     (case element_strings P xs of Inl e \<Rightarrow> Inl e | Inr ss \<Rightarrow> Inr (join_comma ss))"
| "ToString P (JObject kvs) =
     (if map_of kvs ''toString'' = None then Inr ''[object Object]''
      else Inl (TypeError ''Cannot convert object to primitive value''))"
| "element_strings P [] = Inr []"
| "element_strings P (x # xs) =
     (case (if nullish x then Inr [] else ToString P x) of
        Inl e \<Rightarrow> Inl e
      | Inr s \<Rightarrow> (case element_strings P xs of Inl e \<Rightarrow> Inl e | Inr ss \<Rightarrow> Inr (s # ss)))"

fun ToNumber :: "js_prims \<Rightarrow> json \<Rightarrow> thrown + jsnum" where
  \<comment> \<open>\<open>Number(x)\<close>\<close>
  "ToNumber P JUndefined = Inr NaN"
| "ToNumber P JNull = Inr (Fin 0)"
| "ToNumber P (JBool b) = Inr (if b then Fin 1 else Fin 0)"
| "ToNumber P (JNum n) = Inr n"
| "ToNumber P (JString s) = Inr (StringToNumber P s)"
| "ToNumber P x =
     (case ToString P x of Inl e \<Rightarrow> Inl e | Inr s \<Rightarrow> Inr (StringToNumber P s))"

text \<open>Decimal digits of a non-negative integer (a port, a millisecond clock reading).\<close>

fun dec :: "nat \<Rightarrow> string" where
  "dec n = (if n < 10 then [''0123456789'' ! n] else dec (n div 10) @ [''0123456789'' ! (n mod 10)])"

declare dec.simps [simp del]

text \<open>
  What \<open>JSON.parse(JSON.stringify(x))\<close> returns, that is, what the reader of a
  serialised value gets: a property whose value is \<open>undefined\<close> is left out, an
  \<open>undefined\<close> array element and a number that is not finite become \<open>null\<close>.
\<close>

fun wire :: "json \<Rightarrow> json" where
  "wire (JArray xs) = JArray (map (\<lambda>x. if x = JUndefined then JNull else wire x) xs)"
| "wire (JObject kvs) =
     JObject (map (\<lambda>kv. (fst kv, wire (snd kv))) (filter (\<lambda>kv. snd kv \<noteq> JUndefined) kvs))"
| "wire (JNum n) = (case n of Fin r \<Rightarrow> JNum (Fin r) | _ \<Rightarrow> JNull)"
| "wire x = x"

section \<open>Protocol Adapter: the fetch override of the streaming-capable provider\<close>

text \<open>
  \<open>vs-llm-fixed.ts\<close>, second provider, \<open>getModelInstance\<close>, lines 344-507. The body it
  posts to \<open>/api/chat\<close> (lines 362-380) is
  \<^verbatim>\<open>{ messages: originalRequestBody.messages?.map(...) || [] }\<close>
  and nothing else. \<open>x.map\<close> is a function only on an array: on any other value that is
  not \<open>null\<close> or \<open>undefined\<close> the call throws.
\<close>

definition bridge_messages :: "json \<Rightarrow> thrown + json" where
  "bridge_messages originalRequestBody =
     (case get originalRequestBody ''messages'' of
        Inl e \<Rightarrow> Inl e
      | Inr ms \<Rightarrow>
          if nullish ms then Inr (JArray [])
          else (case ms of
                  JArray xs \<Rightarrow>
                    (case map_throw normalizeMessage xs of
                       Inl e \<Rightarrow> Inl e
                     | Inr ys \<Rightarrow> Inr (or_js (JArray ys) (JArray [])))
                | _ \<Rightarrow> Inl (TypeError ''originalRequestBody.messages.map is not a function'')))"

definition bridge_request_body :: "json \<Rightarrow> thrown + json" where
  "bridge_request_body originalRequestBody =
     (case bridge_messages originalRequestBody of
        Inl e \<Rightarrow> Inl e
      | Inr ms \<Rightarrow> Inr (JObject [(''messages'', ms)]))"

text \<open>The reply of \<open>fetch\<close>: \<open>resp_json\<close> is \<open>None\<close> when the body is not JSON.\<close>

record fetch_response =
  resp_status :: nat
  resp_statusText :: string
  resp_json :: "json option"

definition ok :: "fetch_response \<Rightarrow> bool" where
  "ok r = (200 \<le> resp_status r \<and> resp_status r \<le> 299)"

text \<open>
  The usage counters (lines 429-443 and 475-489, the same three expressions):
  \<^verbatim>\<open>
  result.model?.promptTokens && !isNaN(Number(result.model.promptTokens))
    ? Number(result.model.promptTokens) : 0
  \<close>
  \<open>Number\<close> is applied only to a truthy field; where it throws, so does the expression.
  Its second application gives what the first gave.
\<close>

definition usage_counter :: "js_prims \<Rightarrow> json \<Rightarrow> string \<Rightarrow> thrown + jsnum" where
  "usage_counter P result k =
     (case get result ''model'' of
        Inl e \<Rightarrow> Inl e
      | Inr m \<Rightarrow>
          if truthy (opt_get m k) then
            (case get m k of
               Inl e \<Rightarrow> Inl e
             | Inr v \<Rightarrow>
                 (case ToNumber P v of
                    Inl e \<Rightarrow> Inl e
                  | Inr n \<Rightarrow> if n \<noteq> NaN then ToNumber P v else Inr (Fin 0)))
          else Inr (Fin 0))"

definition usage :: "js_prims \<Rightarrow> json \<Rightarrow> thrown + json" where
  "usage P result =
     (case usage_counter P result ''promptTokens'' of
        Inl e \<Rightarrow> Inl e
      | Inr p \<Rightarrow>
     (case usage_counter P result ''completionTokens'' of
        Inl e \<Rightarrow> Inl e
      | Inr c \<Rightarrow>
     (case usage_counter P result ''totalTokens'' of
        Inl e \<Rightarrow> Inl e
      | Inr t \<Rightarrow>
          Inr (JObject [(''prompt_tokens'', JNum p), (''completion_tokens'', JNum c),
                        (''total_tokens'', JNum t)]))))"

definition result_model :: "json \<Rightarrow> string \<Rightarrow> json" where
  \<comment> \<open>\<open>result.model?.id || modelNameOption\<close>\<close>
  "result_model result modelNameOption =
     or_js (opt_get (member_of result ''model'') ''id'') (JString modelNameOption)"

text \<open>
  The objects given to \<open>JSON.stringify\<close>. \<open>now k\<close> is what the \<open>k\<close>-th call of
  \<open>Date.now()\<close> in the stream's \<open>start\<close> returns.
\<close>

definition contentChunk :: "(nat \<Rightarrow> nat) \<Rightarrow> string \<Rightarrow> json \<Rightarrow> json" where
  "contentChunk now modelNameOption result =
     JObject [
       (''id'', JString (''chatcmpl-'' @ dec (now 0))),
       (''object'', JString ''chat.completion.chunk''),
       (''created'', JNum (Fin (of_nat (now 1 div 1000)))),
       (''model'', result_model result modelNameOption),
       (''choices'', JArray [JObject [
          (''index'', JNum (Fin 0)),
          (''delta'', JObject [(''content'', or_js (member_of result ''response'') (JString ''''))]),
          (''finish_reason'', JNull)]])]"

definition finalChunk :: "js_prims \<Rightarrow> (nat \<Rightarrow> nat) \<Rightarrow> string \<Rightarrow> json \<Rightarrow> thrown + json" where
  "finalChunk P now modelNameOption result =
     (case usage P result of
        Inl e \<Rightarrow> Inl e
      | Inr u \<Rightarrow>
          Inr (JObject [
            (''id'', JString (''chatcmpl-'' @ dec (now 2) @ ''-final'')),
            (''object'', JString ''chat.completion.chunk''),
            (''created'', JNum (Fin (of_nat (now 3 div 1000)))),
            (''model'', result_model result modelNameOption),
            (''choices'', JArray [JObject [
               (''index'', JNum (Fin 0)),
               (''delta'', JObject []),
               (''finish_reason'', JString ''stop'')]]),
            (''usage'', u)]))"

definition openAIResponse :: "js_prims \<Rightarrow> string \<Rightarrow> json \<Rightarrow> thrown + json" where
  "openAIResponse P modelNameOption result =
     (case usage P result of
        Inl e \<Rightarrow> Inl e
      | Inr u \<Rightarrow>
          Inr (JObject [
            (''choices'', JArray [JObject [
               (''index'', JNum (Fin 0)),
               (''message'', JObject [
                  (''content'', or_js (member_of result ''response'') (JString '''')),
                  (''role'', JString ''assistant'')]),
               (''finish_reason'', JString ''stop'')]]),
            (''model'', result_model result modelNameOption),
            (''usage'', u)]))"

text \<open>
  What the override hands back: a 200 response that is either one JSON text or the
  event stream, each \<open>Data\<close> event being a line \<open>data: <JSON>\<close> and \<open>Done\<close> the line
  \<open>data: [DONE]\<close>, in the order they were enqueued. A JSON text is kept as the value
  its reader parses from it, \<open>wire\<close> of the object that was serialised. The stream's
  \<open>start\<close> runs inside the constructor of the stream: an exception in it leaves the
  constructor, and no response is made.
\<close>

datatype sse_event = Data json | Done

datatype adapter_response = JsonResponse json | EventStream "sse_event list"

text \<open>What it throws: \<open>new Response(JSON.stringify({ error: message }), { status })\<close>.\<close>

datatype adapter_failure = ThrownResponse nat json

text \<open>
  The \<open>try\<close> block. \<open>parsed\<close> is the outcome of \<open>JSON.parse(body || '{}')\<close>,
  \<open>post_chat\<close> the network call, which rejects when the bridge is not reachable.
\<close>

definition fetch_try ::
  "js_prims \<Rightarrow> (nat \<Rightarrow> nat) \<Rightarrow> (json \<Rightarrow> thrown + fetch_response) \<Rightarrow> string \<Rightarrow> thrown + json
     \<Rightarrow> thrown + adapter_response" where
  "fetch_try P now post_chat modelNameOption parsed =
     (case parsed of
        Inl e \<Rightarrow> Inl e
      | Inr originalRequestBody \<Rightarrow>
     (case get originalRequestBody ''stream'' of
        Inl e \<Rightarrow> Inl e
      | Inr stream \<Rightarrow>
     (case bridge_request_body originalRequestBody of
        Inl e \<Rightarrow> Inl e
      | Inr requestBody \<Rightarrow>
     (case post_chat requestBody of
        Inl e \<Rightarrow> Inl e
      | Inr vsCodeExtensionResponse \<Rightarrow>
          if \<not> ok vsCodeExtensionResponse then
            Inl (Error (''VS Code LLM Bridge error: '' @ resp_statusText vsCodeExtensionResponse))
          else
     (case resp_json vsCodeExtensionResponse of
        None \<Rightarrow> Inl (Error ''Unexpected token in JSON'')
      | Some result \<Rightarrow>
     (case get result ''success'' of
        Inl e \<Rightarrow> Inl e
      | Inr success \<Rightarrow>
          if \<not> truthy success then
            (case ToString P (member_of result ''error'') of
               Inl e \<Rightarrow> Inl e
             | Inr text \<Rightarrow> Inl (Error (''VS Code LLM error: '' @ text)))
          else if stream = JBool True then
            (case finalChunk P now modelNameOption result of
               Inl e \<Rightarrow> Inl e
             | Inr final \<Rightarrow>
                 Inr (EventStream [Data (wire (contentChunk now modelNameOption result)),
                                   Data (wire final), Done]))
          else
            (case openAIResponse P modelNameOption result of
               Inl e \<Rightarrow> Inl e
             | Inr r \<Rightarrow> Inr (JsonResponse (wire r)))))))))"

text \<open>
  The \<open>catch\<close> block (lines 497-506). Nothing in the \<open>try\<close> block throws a
  \<open>Response\<close>, so every exception is wrapped.
\<close>

definition adapter_fetch ::
  "js_prims \<Rightarrow> (nat \<Rightarrow> nat) \<Rightarrow> (json \<Rightarrow> thrown + fetch_response) \<Rightarrow> string \<Rightarrow> thrown + json
     \<Rightarrow> adapter_failure + adapter_response" where
  "adapter_fetch P now post_chat modelNameOption parsed =
     (case fetch_try P now post_chat modelNameOption parsed of
        Inl e \<Rightarrow> Inl (ThrownResponse 500 (JObject [(''error'', JString (message e))]))
      | Inr r \<Rightarrow> Inr r)"

section \<open>Bridge Server: the \<open>POST /api/chat\<close> handler\<close>

text \<open>
  The host (\<open>vscode.lm\<close>) is a parameter. \<open>selectChatModels\<close> is called with a selector
  or with nothing and returns the models in the host's order, or throws. A model's
  \<open>sendRequest\<close> throws, or gives a stream of parts whose iteration may itself end in an
  exception.

  What the host throws need not be an \<open>Error\<close>: \<open>Caught e\<close> is an \<open>Error\<close> object,
  \<open>CaughtObject kvs\<close> any other object with these properties, and \<open>CaughtValue\<close> a
  string, a number, a boolean or an array, which has no \<open>message\<close>. Host calls are
  taken to settle, and with something other than \<open>null\<close> or \<open>undefined\<close> when they
  throw: a call that never settles leaves the request without a reply, and so does a
  thrown \<open>null\<close> or \<open>undefined\<close>, on which the \<open>catch\<close> block's own
  \<open>error.message\<close> throws; no reply is described here for them.
\<close>

datatype caught = Caught thrown | CaughtObject "(string \<times> json) list" | CaughtValue

fun caught_message :: "caught \<Rightarrow> json" where
  \<comment> \<open>\<open>error.message\<close>\<close>
  "caught_message (Caught e) = JString (message e)"
| "caught_message (CaughtObject kvs) = member_of (JObject kvs) ''message''"
| "caught_message CaughtValue = JUndefined"

datatype chat_message = User json

datatype response_part = LanguageModelTextPart string | OtherPart

datatype send_outcome =
    SendThrows caught
  | ResponseStream "response_part list" "caught option"

record language_model =
  lm_id :: string
  lm_vendor :: string
  lm_family :: string
  lm_name :: string
  sendRequest :: "chat_message list \<Rightarrow> json \<Rightarrow> send_outcome"

record selector =
  sel_id :: json
  sel_vendor :: json
  sel_family :: json

type_synonym host = "selector option \<Rightarrow> caught + language_model list"

record http_reply =
  status :: nat
  body :: json

text \<open>One call of \<open>model.sendRequest(chatMessages, options, token)\<close>.\<close>

type_synonym invocation = "language_model \<times> chat_message list \<times> json"

text \<open>
  Lines 137-148: \<open>requestedModel\<close> is tested for truthiness, so its three properties are
  read from a value that is not \<open>null\<close> or \<open>undefined\<close>.
\<close>

definition select_models :: "host \<Rightarrow> json \<Rightarrow> caught + language_model list" where
  "select_models selectChatModels requestedModel =
     (if truthy requestedModel then
        selectChatModels (Some \<lparr> sel_id = member_of requestedModel ''id'',
                                 sel_vendor = member_of requestedModel ''vendor'',
                                 sel_family = member_of requestedModel ''family'' \<rparr>)
      else selectChatModels None)"

text \<open>Lines 172-177: the text parts of the stream, concatenated in order.\<close>

fun fullResponse :: "response_part list \<Rightarrow> string" where
  "fullResponse [] = []"
| "fullResponse (LanguageModelTextPart v # parts) = v @ fullResponse parts"
| "fullResponse (OtherPart # parts) = fullResponse parts"

definition to_chat_message :: "json \<Rightarrow> caught + chat_message" where
  \<comment> \<open>\<open>msg => vscode.LanguageModelChatMessage.User(msg.content)\<close>\<close>
  "to_chat_message msg =
     (case get msg ''content'' of Inl e \<Rightarrow> Inl (Caught e) | Inr c \<Rightarrow> Inr (User c))"

text \<open>
  The four replies, as their reader parses them. \<open>res.json\<close> serialises its argument:
  the first three bodies hold strings and booleans only and arrive as they are; in the
  last, \<open>error\<close> is whatever \<open>error.message\<close> is, and is left out when that is
  \<open>undefined\<close>.
\<close>

definition bad_request :: http_reply where
  "bad_request =
     \<lparr> status = 400,
       body = JObject [(''success'', JBool False), (''error'', JString ''Messages array is required'')] \<rparr>"

definition no_models :: http_reply where
  "no_models =
     \<lparr> status = 404,
       body = JObject [(''success'', JBool False), (''error'', JString ''No language models available'')] \<rparr>"

definition chat_ok :: "language_model \<Rightarrow> string \<Rightarrow> http_reply" where
  "chat_ok model text =
     \<lparr> status = 200,
       body = JObject [
         (''success'', JBool True),
         (''response'', JString text),
         (''model'', JObject [
            (''id'', JString (lm_id model)),
            (''vendor'', JString (lm_vendor model)),
            (''family'', JString (lm_family model)),
            (''name'', JString (lm_name model))])] \<rparr>"

definition server_error :: "caught \<Rightarrow> http_reply" where
  "server_error e =
     \<lparr> status = 500,
       body = wire (JObject [(''success'', JBool False), (''error'', caught_message e)]) \<rparr>"

text \<open>
  The \<open>try\<close> block of the handler (lines 126-188): the reply it sends, or the exception
  that reaches the \<open>catch\<close>, together with the calls of \<open>sendRequest\<close> made on the way.
  Destructuring \<open>req.body\<close> throws when the body is \<open>undefined\<close> or \<open>null\<close> (the
  body parser of Express 4, which \<open>package.json\<close> asks for, always leaves an object);
  \<open>options\<close> defaults to \<open>{}\<close> when it is \<open>undefined\<close>. Past the check of line 129
  \<open>messages\<close> is an array, and \<open>messages.map\<close> runs over its elements; the other branch
  of the \<open>case\<close> that takes them out is never reached.
\<close>

definition chat_try :: "host \<Rightarrow> json \<Rightarrow> (caught + http_reply) \<times> invocation list" where
  "chat_try selectChatModels req_body =
     (if nullish req_body then
        (Inl (Caught (TypeError ''Cannot destructure property messages of req.body'')), [])
      else
        let messages = member_of req_body ''messages'';
            requestedModel = member_of req_body ''model'';
            options = (if member_of req_body ''options'' = JUndefined then JObject []
                       else member_of req_body ''options'')
        in
        if \<not> truthy messages \<or> \<not> is_array messages then (Inr bad_request, [])
        else
          (case select_models selectChatModels requestedModel of
             Inl e \<Rightarrow> (Inl e, [])
           | Inr models \<Rightarrow>
               (case models of
                  [] \<Rightarrow> (Inr no_models, [])
                | model # _ \<Rightarrow>
                    (case map_throw to_chat_message (case messages of JArray ms \<Rightarrow> ms | _ \<Rightarrow> []) of
                       Inl e \<Rightarrow> (Inl e, [])
                     | Inr chatMessages \<Rightarrow>
                         (case sendRequest model chatMessages options of
                            SendThrows e \<Rightarrow> (Inl e, [(model, chatMessages, options)])
                          | ResponseStream parts failure \<Rightarrow>
                              (case failure of
                                 Some e \<Rightarrow> (Inl e, [(model, chatMessages, options)])
                               | None \<Rightarrow>
                                   (Inr (chat_ok model (fullResponse parts)),
                                    [(model, chatMessages, options)])))))))"

record chat_result =
  reply :: http_reply
  invoked :: "invocation list"

definition api_chat :: "host \<Rightarrow> json \<Rightarrow> chat_result" where
  "api_chat selectChatModels req_body =
     (case chat_try selectChatModels req_body of
        (Inl e, calls) \<Rightarrow> \<lparr> reply = server_error e, invoked = calls \<rparr>
      | (Inr r, calls) \<Rightarrow> \<lparr> reply = r, invoked = calls \<rparr>)"

text \<open>
  The adapter's network call when the listener behind it is this bridge: the posted
  object goes through \<open>JSON.stringify\<close> and the body parser, the reply through
  \<open>res.json\<close> and \<open>response.json()\<close>, and the status text is the standard reason phrase
  of the status code.
\<close>

definition reason_phrase :: "nat \<Rightarrow> string" where
  "reason_phrase c =
     (if c = 200 then ''OK'' else if c = 400 then ''Bad Request''
      else if c = 404 then ''Not Found'' else if c = 500 then ''Internal Server Error''
      else [])"

definition post_to_bridge :: "host \<Rightarrow> json \<Rightarrow> thrown + fetch_response" where
  "post_to_bridge selectChatModels requestBody =
     (let r = reply (api_chat selectChatModels (wire requestBody))
      in Inr \<lparr> resp_status = status r, resp_statusText = reason_phrase (status r),
               resp_json = Some (wire (body r)) \<rparr>)"

section \<open>Bridge Server: start and stop\<close>

text \<open>
  The module's variables \<open>server\<close> and \<open>serverPort\<close>, the flag of the tree view, and
  what the extension did to the outside: the ports it asked to listen on, the
  notifications it showed, how often it called \<open>server.close\<close>, and the exceptions that
  nothing caught. A server object remembers its port and whether an \<open>error\<close> listener
  was attached to it: an \<open>error\<close> event without a listener is thrown by the emitter.
\<close>

record http_server =
  listen_port :: nat
  has_error_listener :: bool

datatype notification = Information string | Warning string | ErrorMessage string

record extension =
  server :: "http_server option"
  serverPort :: nat
  serverRunning :: bool
  notifications :: "notification list"
  listen_calls :: "nat list"
  close_calls :: nat
  uncaught :: "thrown list"

text \<open>What a call of \<open>app.listen(port, ...)\<close> leads to, decided by the environment.\<close>

datatype listen_outcome =
    Listening
  | ErrorEvent string string
  | ListenThrows thrown

definition started :: "extension \<Rightarrow> extension" where
  \<comment> \<open>the callback given to \<open>app.listen\<close> (lines 242-247 and 253-258)\<close>
  "started s =
     s\<lparr> notifications := notifications s @
           [Information (''LLM Bridge Server started on http://localhost:'' @ dec (serverPort s))],
        serverRunning := True \<rparr>"

definition on_error :: "(nat \<Rightarrow> listen_outcome) \<Rightarrow> string \<Rightarrow> string \<Rightarrow> extension \<Rightarrow> extension" where
  \<comment> \<open>the \<open>error\<close> listener of the first server (lines 249-264)\<close>
  "on_error listen code msg s =
     (if code = ''EADDRINUSE'' then
        let s1 = s\<lparr> serverPort := serverPort s + 1 \<rparr>;
            s2 = s1\<lparr> listen_calls := listen_calls s1 @ [serverPort s1] \<rparr>
        in (case listen (serverPort s1) of
              ListenThrows e \<Rightarrow> s2\<lparr> uncaught := uncaught s2 @ [e] \<rparr>
            | Listening \<Rightarrow>
                started (s2\<lparr> server := Some \<lparr> listen_port = serverPort s1, has_error_listener = False \<rparr> \<rparr>)
            | ErrorEvent c m \<Rightarrow>
                s2\<lparr> server := Some \<lparr> listen_port = serverPort s1, has_error_listener = False \<rparr>,
                    uncaught := uncaught s2 @ [Error m] \<rparr>)
      else
        s\<lparr> notifications := notifications s @ [ErrorMessage (''Failed to start server: '' @ msg)],
           server := None \<rparr>)"

text \<open>
  \<open>startServer\<close> (lines 233-271) with the events its listen calls lead to. The events
  come later than the call, one after the other; they are composed here in their order.
  \<open>app.listen\<close> is that of Express 4, \<open>http.createServer(app).listen(...)\<close>: the callback runs
  when the server listens, and a failure to bind is an \<open>error\<close> event of that server.
  The port is the module's \<open>serverPort\<close>, which the function reads instead of taking a
  parameter.
\<close>

definition startServer :: "(nat \<Rightarrow> listen_outcome) \<Rightarrow> extension \<Rightarrow> extension" where
  "startServer listen s =
     (if server s \<noteq> None then
        s\<lparr> notifications := notifications s @ [Warning ''Server is already running!''] \<rparr>
      else
        let s1 = s\<lparr> listen_calls := listen_calls s @ [serverPort s] \<rparr>
        in (case listen (serverPort s) of
              ListenThrows e \<Rightarrow>
                s1\<lparr> notifications := notifications s1 @
                      [ErrorMessage (''Failed to start server: '' @ message e)],
                    server := None \<rparr>
            | Listening \<Rightarrow>
                started (s1\<lparr> server := Some \<lparr> listen_port = serverPort s, has_error_listener = True \<rparr> \<rparr>)
            | ErrorEvent code msg \<Rightarrow>
                on_error listen code msg
                  (s1\<lparr> server := Some \<lparr> listen_port = serverPort s, has_error_listener = True \<rparr> \<rparr>)))"

text \<open>
  \<open>stopServer\<close> (lines 276-288) is the synchronous part: it calls \<open>server.close\<close> with
  a callback, or warns. \<open>closed\<close> is that callback, which the server runs later, once
  for each call of \<open>close\<close>; only it sets \<open>server\<close> to \<open>null\<close>.
\<close>

definition stopServer :: "extension \<Rightarrow> extension" where
  "stopServer s =
     (if server s \<noteq> None then s\<lparr> close_calls := close_calls s + 1 \<rparr>
      else s\<lparr> notifications := notifications s @ [Warning ''Server is not running!''] \<rparr>)"

definition closed :: "extension \<Rightarrow> extension" where
  "closed s =
     s\<lparr> notifications := notifications s @ [Information ''LLM Bridge Server stopped''],
        server := None,
        serverRunning := False \<rparr>"

definition initial :: extension where
  \<comment> \<open>lines 7-8: \<open>let server = null; let serverPort = 3000;\<close>\<close>
  "initial =
     \<lparr> server = None, serverPort = 3000, serverRunning = False, notifications = [],
       listen_calls = [], close_calls = 0, uncaught = [] \<rparr>"

section \<open>Reading the replies, and sample inputs\<close>

text \<open>The typed part of the data model: an object with a string \<open>type\<close>; a part of type
  \<open>text\<close> carries a string \<open>text\<close>.\<close>

fun typed_part :: "json \<Rightarrow> bool" where
  "typed_part (JObject kvs) =
     (case map_of kvs ''type'' of
        Some (JString ty) \<Rightarrow>
          (if ty = ''text'' then (case map_of kvs ''text'' of Some (JString t) \<Rightarrow> True | _ \<Rightarrow> False)
           else True)
      | _ \<Rightarrow> False)"
| "typed_part _ = False"

text \<open>The text of the first part whose type is \<open>text\<close>, else the empty string.\<close>

definition first_text :: "json list \<Rightarrow> json" where
  "first_text parts =
     (case find (\<lambda>part. member_of part ''type'' = JString ''text'') parts of
        None \<Rightarrow> JString []
      | Some part \<Rightarrow> member_of part ''text'')"



text \<open>
  How a client reads a chunk: \<open>chunk.choices[0]\<close>, and the text a stream event adds
  to the answer, \<open>choices[0].delta.content\<close> where it is a string.
\<close>

definition choice0 :: "json \<Rightarrow> json" where
  "choice0 chunk = (case member_of chunk ''choices'' of JArray (c # cs) \<Rightarrow> c | _ \<Rightarrow> JUndefined)"

fun event_content :: "sse_event \<Rightarrow> string" where
  "event_content (Data chunk) =
     (case member_of (member_of (choice0 chunk) ''delta'') ''content'' of JString s \<Rightarrow> s | _ \<Rightarrow> [])"
| "event_content Done = []"

text \<open>
  A counter as the claim words it, from the source field \<open>v\<close> and the number \<open>n\<close> that
  \<open>Number(v)\<close> is: 0 for a missing or otherwise falsy source and for one that is not a
  number, else that number. A serialised number reads back as itself when it is finite
  and as \<open>null\<close> when it is not.
\<close>

definition counter_source :: "json \<Rightarrow> string \<Rightarrow> json" where
  "counter_source result k = opt_get (member_of result ''model'') k"

definition coerced :: "json \<Rightarrow> jsnum \<Rightarrow> jsnum" where
  "coerced v n = (if truthy v \<and> n \<noteq> NaN then n else Fin 0)"

fun delivered :: "jsnum \<Rightarrow> json" where
  "delivered (Fin r) = JNum (Fin r)"
| "delivered n = JNull"

definition chat_body :: "host \<Rightarrow> json \<Rightarrow> json" where
  "chat_body H req_body = body (reply (api_chat H req_body))"

text \<open>
  Concrete inputs on which the theorems below are run: a number reader that knows the
  string \<open>12\<close>, a clock, a network that answers every request with one given response,
  models that answer \<open>4\<close> and \<open>5\<close>, one that throws an \<open>Error\<close> with an empty message
  and one that throws a string, the hosts offering them, bridge requests and the
  framework's requests that lead to them, bridge replies with token counters, and two
  ways the ports can be taken.
\<close>

definition sample_prims :: js_prims where
  "sample_prims =
     \<lparr> StringToNumber = (\<lambda>s. if s = ''12'' then Fin 12 else NaN),
       NumberToString = (\<lambda>n. ''0'') \<rparr>"

definition sample_clock :: "nat \<Rightarrow> nat" where
  "sample_clock k = 5000 + k"

definition reply_with :: "fetch_response \<Rightarrow> json \<Rightarrow> thrown + fetch_response" where
  "reply_with r requestBody = Inr r"

definition answering_model :: language_model where
  "answering_model =
     \<lparr> lm_id = ''gpt-4o'', lm_vendor = ''copilot'', lm_family = ''gpt'', lm_name = ''GPT-4o'',
       sendRequest = (\<lambda>chatMessages options. ResponseStream [LanguageModelTextPart ''4''] None) \<rparr>"


definition failing_model :: language_model where
  "failing_model =
     \<lparr> lm_id = ''gpt-4o'', lm_vendor = ''copilot'', lm_family = ''gpt'', lm_name = ''GPT-4o'',
       sendRequest = (\<lambda>chatMessages options. SendThrows (Caught (Error []))) \<rparr>"

definition string_throwing_model :: language_model where
  "string_throwing_model =
     \<lparr> lm_id = ''gpt-4o'', lm_vendor = ''copilot'', lm_family = ''gpt'', lm_name = ''GPT-4o'',
       sendRequest = (\<lambda>chatMessages options. SendThrows CaughtValue) \<rparr>"

definition one_model_host :: host where
  "one_model_host = (\<lambda>sel. Inr [answering_model])"


definition failing_host :: host where
  "failing_host = (\<lambda>sel. Inr [failing_model])"

definition string_throwing_host :: host where
  "string_throwing_host = (\<lambda>sel. Inr [string_throwing_model])"

definition no_model_host :: host where
  "no_model_host = (\<lambda>sel. Inr [])"

definition question :: json where
  "question = JObject [(''messages'', JArray [JObject [(''content'', JString ''2+2?'')]])]"

definition chat_request :: json where
  "chat_request =
     JObject [(''model'', JString ''claude''), (''stream'', JBool True),
       (''messages'', JArray [JObject [(''role'', JString ''user''), (''content'', JString ''2+2?'')]])]"

definition plain_request :: json where
  "plain_request =
     JObject [(''model'', JString ''claude''),
       (''messages'', JArray [JObject [(''role'', JString ''user''), (''content'', JString ''2+2?'')]])]"

definition hi_message :: json where
  "hi_message =
     JObject [(''role'', JString ''user''),
       (''content'', JArray [JObject [(''type'', JString ''text''), (''text'', JString ''hi'')],
                             JObject [(''type'', JString ''image''), (''url'', JString ''x'')]])]"



definition counted_result :: json where
  "counted_result =
     JObject [(''success'', JBool True), (''response'', JString ''4''),
       (''model'', JObject [(''id'', JString ''gpt-4o''), (''promptTokens'', JString ''12''),
          (''completionTokens'', JString ''many''), (''totalTokens'', JNum (Fin 15))])]"

definition counted_reply :: fetch_response where
  "counted_reply = \<lparr> resp_status = 200, resp_statusText = ''OK'', resp_json = Some counted_result \<rparr>"

definition odd_result :: json where
  "odd_result =
     JObject [(''success'', JBool True), (''response'', JString ''4''),
       (''model'', JObject [(''id'', JString ''gpt-4o''),
          (''promptTokens'', JObject [(''toString'', JNum (Fin 1))])])]"

definition odd_reply :: fetch_response where
  "odd_reply = \<lparr> resp_status = 200, resp_statusText = ''OK'', resp_json = Some odd_result \<rparr>"

definition infinite_result :: json where
  "infinite_result =
     JObject [(''success'', JBool True), (''response'', JString ''4''),
       (''model'', JObject [(''id'', JString ''gpt-4o''), (''promptTokens'', JNum PosInf)])]"

definition infinite_reply :: fetch_response where
  "infinite_reply = \<lparr> resp_status = 200, resp_statusText = ''OK'', resp_json = Some infinite_result \<rparr>"

definition busy_then_free :: "nat \<Rightarrow> listen_outcome" where
  "busy_then_free port =
     (if port = 3000 then ErrorEvent ''EADDRINUSE'' ''listen EADDRINUSE'' else Listening)"

definition all_free :: "nat \<Rightarrow> listen_outcome" where
  "all_free port = Listening"

definition running :: extension where
  "running = startServer all_free initial"

section \<open>Auxiliary facts\<close>

lemma member_not_undefined: "member_of x k \<noteq> JUndefined \<Longrightarrow> \<not> nullish x"
  by (cases x) auto

lemma typed_part_text:
  "typed_part p \<Longrightarrow> member_of p ''type'' = JString ''text'' \<Longrightarrow> \<exists>t. member_of p ''text'' = JString t"
  by (cases p) (auto split: option.splits json.splits if_splits)

lemma typed_part_not_nullish: "typed_part p \<Longrightarrow> \<not> nullish p"
  by (cases p) auto

lemma find_text_part_typed:
  "list_all typed_part parts \<Longrightarrow>
   find_text_part parts =
     Inr (case find (\<lambda>part. member_of part ''type'' = JString ''text'') parts of
            None \<Rightarrow> JUndefined | Some part \<Rightarrow> part)"
  by (induction parts) (auto simp: get_def typed_part_not_nullish)






lemma or_js_defined: "b \<noteq> JUndefined \<Longrightarrow> or_js a b \<noteq> JUndefined"
  by (cases a) (auto simp: or_js_def)

lemma result_model_defined: "result_model result modelNameOption \<noteq> JUndefined"
  by (simp add: result_model_def or_js_defined)

lemma wire_JNum:
  "(case n of Fin r \<Rightarrow> JNum (Fin r) | PosInf \<Rightarrow> JNull | NegInf \<Rightarrow> JNull | NaN \<Rightarrow> JNull) = delivered n"
  by (cases n) simp_all

lemma usage_counter_value:
  assumes "\<not> nullish result"
    and "ToNumber P (counter_source result k) = Inr n"
  shows "usage_counter P result k = Inr (coerced (counter_source result k) n)"
  using assms
  by (auto simp: usage_counter_def get_def coerced_def counter_source_def opt_get_def)

lemma usage_value:
  assumes "\<not> nullish result"
    and "ToNumber P (counter_source result ''promptTokens'') = Inr np"
    and "ToNumber P (counter_source result ''completionTokens'') = Inr nc"
    and "ToNumber P (counter_source result ''totalTokens'') = Inr nt"
  shows "usage P result =
     Inr (JObject [
       (''prompt_tokens'', JNum (coerced (counter_source result ''promptTokens'') np)),
       (''completion_tokens'', JNum (coerced (counter_source result ''completionTokens'') nc)),
       (''total_tokens'', JNum (coerced (counter_source result ''totalTokens'') nt))])"
  using assms by (simp add: usage_def usage_counter_value)

text \<open>What the reader parses from the two chunks and from the whole response.\<close>

lemma wire_contentChunk:
  assumes "member_of result ''response'' = JString R"
  shows "choice0 (wire (contentChunk now modelNameOption result)) =
           JObject [(''index'', JNum (Fin 0)), (''delta'', JObject [(''content'', JString R)]),
                    (''finish_reason'', JNull)]"
  using assms result_model_defined[of result modelNameOption]
  by (simp add: contentChunk_def choice0_def or_js_def)

lemma wire_finalChunk:
  assumes "finalChunk P now modelNameOption result = Inr final"
    and "usage P result = Inr (JObject [(''prompt_tokens'', JNum p), (''completion_tokens'', JNum c),
                                         (''total_tokens'', JNum t)])"
  shows "choice0 (wire final) =
           JObject [(''index'', JNum (Fin 0)), (''delta'', JObject []),
                    (''finish_reason'', JString ''stop'')]
       \<and> member_of (wire final) ''usage'' =
           JObject [(''prompt_tokens'', delivered p), (''completion_tokens'', delivered c),
                    (''total_tokens'', delivered t)]"
  using assms result_model_defined[of result modelNameOption]
  by (auto simp: finalChunk_def choice0_def wire_JNum)

lemma wire_openAIResponse:
  assumes "openAIResponse P modelNameOption result = Inr whole"
    and "usage P result = Inr (JObject [(''prompt_tokens'', JNum p), (''completion_tokens'', JNum c),
                                         (''total_tokens'', JNum t)])"
  shows "member_of (wire whole) ''usage'' =
           JObject [(''prompt_tokens'', delivered p), (''completion_tokens'', delivered c),
                    (''total_tokens'', delivered t)]"
  using assms result_model_defined[of result modelNameOption] or_js_defined[of "JString []" "member_of result ''response''"]
  by (auto simp: openAIResponse_def wire_JNum)

lemma ToNumber_throws_only:
  "ToNumber P v = Inl e \<Longrightarrow>
   is_array v \<or> (\<exists>kvs. v = JObject kvs \<and> map_of kvs ''toString'' \<noteq> None)"
  by (cases v) (auto split: if_splits)

lemma adapter_fetch_success:
  assumes "get originalRequestBody ''stream'' = Inr stream"
    and "bridge_request_body originalRequestBody = Inr requestBody"
    and "post_chat requestBody = Inr resp"
    and "ok resp"
    and "resp_json resp = Some result"
    and "truthy (member_of result ''success'')"
  shows "adapter_fetch P now post_chat modelNameOption (Inr originalRequestBody) =
     (if stream = JBool True then
        (case finalChunk P now modelNameOption result of
           Inl e \<Rightarrow> Inl (ThrownResponse 500 (JObject [(''error'', JString (message e))]))
         | Inr final \<Rightarrow>
             Inr (EventStream [Data (wire (contentChunk now modelNameOption result)),
                               Data (wire final), Done]))
      else
        (case openAIResponse P modelNameOption result of
           Inl e \<Rightarrow> Inl (ThrownResponse 500 (JObject [(''error'', JString (message e))]))
         | Inr r \<Rightarrow> Inr (JsonResponse (wire r))))"
proof -
  have "\<not> nullish result" using assms(6) by (cases result) auto
  then have "get result ''success'' = Inr (member_of result ''success'')" by (simp add: get_def)
  then show ?thesis
    using assms by (simp add: adapter_fetch_def fetch_try_def split: sum.splits)
qed

lemma bridge_request_body_chat_request: "bridge_request_body chat_request = Inr question"
  by (simp add: chat_request_def question_def bridge_request_body_def bridge_messages_def
      get_def normalizeMessage_def normalizeContent_def or_js_def)

lemma bridge_request_body_plain_request: "bridge_request_body plain_request = Inr question"
  by (simp add: plain_request_def question_def bridge_request_body_def bridge_messages_def
      get_def normalizeMessage_def normalizeContent_def or_js_def)

lemma counted_sources:
  "ToNumber sample_prims (counter_source counted_result ''promptTokens'') = Inr (Fin 12)"
  "ToNumber sample_prims (counter_source counted_result ''completionTokens'') = Inr NaN"
  "ToNumber sample_prims (counter_source counted_result ''totalTokens'') = Inr (Fin 15)"
  "counter_source counted_result ''promptTokens'' = JString ''12''"
  "counter_source counted_result ''completionTokens'' = JString ''many''"
  "counter_source counted_result ''totalTokens'' = JNum (Fin 15)"
  by (simp_all add: counter_source_def counted_result_def opt_get_def sample_prims_def)

lemma post_to_bridge_one_model_host:
  "post_to_bridge one_model_host question =
     Inr \<lparr> resp_status = 200, resp_statusText = ''OK'',
           resp_json = Some (JObject [(''success'', JBool True), (''response'', JString ''4''),
             (''model'', JObject [(''id'', JString ''gpt-4o''), (''vendor'', JString ''copilot''),
                (''family'', JString ''gpt''), (''name'', JString ''GPT-4o'')])]) \<rparr>"
  by (simp add: post_to_bridge_def api_chat_def chat_try_def question_def one_model_host_def
      answering_model_def select_models_def to_chat_message_def get_def chat_ok_def
      reason_phrase_def Let_def)

lemma post_to_bridge_failing_host:
  "post_to_bridge failing_host question =
       Inr \<lparr> resp_status = 500, resp_statusText = ''Internal Server Error'',
             resp_json = Some (JObject [(''success'', JBool False), (''error'', JString [])]) \<rparr>"
  by (simp add: post_to_bridge_def api_chat_def chat_try_def question_def failing_host_def
      failing_model_def select_models_def to_chat_message_def get_def server_error_def
      reason_phrase_def Let_def)

lemma chat_try_not_array:
  "\<not> nullish req_body \<Longrightarrow> \<not> is_array (member_of req_body ''messages'') \<Longrightarrow>
   chat_try H req_body = (Inr bad_request, [])"
  by (simp add: chat_try_def Let_def)




text \<open>The three ways the handler ends once \<open>messages\<close> is an array.\<close>

lemma chat_try_cases:
  assumes "\<not> nullish req_body" "is_array (member_of req_body ''messages'')"
  shows "(\<exists>e calls. chat_try H req_body = (Inl e, calls))
       \<or> chat_try H req_body = (Inr no_models, [])
       \<or> (\<exists>m rest chatMessages options text.
             select_models H (member_of req_body ''model'') = Inr (m # rest)
           \<and> chat_try H req_body = (Inr (chat_ok m text), [(m, chatMessages, options)]))"
  using assms
  by (cases "member_of req_body ''messages''")
     (auto simp: chat_try_def Let_def
           split: sum.splits list.splits send_outcome.splits option.splits)

lemma api_chat_reply:
  "reply (api_chat H req_body) =
     (case fst (chat_try H req_body) of Inl e \<Rightarrow> server_error e | Inr r \<Rightarrow> r)"
  by (simp add: api_chat_def split: prod.splits sum.splits)


text \<open>The 500 reply as its reader parses it.\<close>

lemma server_error_body:
  "status (server_error e) = 500
   \<and> member_of (body (server_error e)) ''success'' = JBool False
   \<and> member_of (body (server_error e)) ''response'' = JUndefined
   \<and> member_of (body (server_error e)) ''error'' =
       (if caught_message e = JUndefined then JUndefined else wire (caught_message e))"
  by (simp add: server_error_def)





section \<open>Protocol Adapter: claims\<close>

text \<open>
  Claim C6. Content normalization of a message (any value but \<open>null\<close> and
  \<open>undefined\<close>, on which reading \<open>content\<close> throws): a string content is used as it
  is; an array of typed parts gives the text of the first part whose type is \<open>text\<close>,
  and the empty string when there is no such part; every other shape of content gives the
  empty string. The witness runs the three examples of the claim:
  \<open>[{type:"text", text:"hi"}, {type:"image", url:"x"}]\<close> gives \<open>"hi"\<close>, \<open>[]\<close>
  gives \<open>""\<close>, and the string \<open>"hi"\<close> gives \<open>"hi"\<close>.
\<close>

theorem normalizeContent_first_text:
  assumes "\<not> nullish msg"
    and "\<And>parts. member_of msg ''content'' = JArray parts \<Longrightarrow> list_all typed_part parts"
  shows "normalizeContent msg =
           Inr (case member_of msg ''content'' of
                  JString s \<Rightarrow> JString s
                | JArray parts \<Rightarrow> first_text parts
                | _ \<Rightarrow> JString [])"
proof (cases "member_of msg ''content''")
  case (JArray parts)
  have typed: "list_all typed_part parts" using assms(2) JArray by simp
  show ?thesis
  proof (cases "find (\<lambda>part. member_of part ''type'' = JString ''text'') parts")
    case None
    then show ?thesis using assms(1) JArray find_text_part_typed[OF typed]
      by (simp add: normalizeContent_def get_def first_text_def opt_get_def or_js_def)
  next
    case (Some part)
    then have "part \<in> set parts" and ty: "member_of part ''type'' = JString ''text''"
      by (auto simp: find_Some_iff)
    then have "typed_part part" using typed by (simp add: list_all_iff)
    then obtain t where "member_of part ''text'' = JString t" and "\<not> nullish part"
      using typed_part_text ty typed_part_not_nullish by blast
    then show ?thesis using assms(1) JArray Some find_text_part_typed[OF typed]
      by (simp add: normalizeContent_def get_def first_text_def opt_get_def or_js_def)
  qed
qed (use assms(1) in \<open>simp_all add: normalizeContent_def get_def\<close>)

theorem normalizeContent_first_text_witness:
  "normalizeContent hi_message = Inr (JString ''hi'')
   \<and> normalizeContent (JObject [(''content'', JArray [])]) = Inr (JString [])
   \<and> normalizeContent (JObject [(''content'', JString ''hi'')]) = Inr (JString ''hi'')"
  using normalizeContent_first_text[of hi_message]
        normalizeContent_first_text[of "JObject [(''content'', JArray [])]"]
        normalizeContent_first_text[of "JObject [(''content'', JString ''hi'')]"]
  by (simp add: hi_message_def first_text_def)

text \<open>
  Claim C1, as the code has it. A request with \<open>stream = true\<close> that the bridge answers
  with a 2xx status, \<open>success = true\<close> and the response string \<open>R\<close> (any string, the
  empty one included), and on whose three token counters \<open>Number\<close> does not throw,
  yields a stream of exactly three events in this order: a chunk whose delta is
  \<open>{content: R}\<close>, a chunk with an empty delta, \<open>finish_reason\<close> \<open>"stop"\<close> and the
  three coerced usage counters as their reader parses them, and the closing sentinel. The
  contents of the deltas, concatenated in order, are \<open>R\<close>. The witness runs a reply
  with the counters \<open>"12"\<close>, \<open>"many"\<close> and \<open>15\<close>, and the reply of this repository's
  bridge, which carries no counter.
\<close>

theorem stream_three_events:
  assumes "get originalRequestBody ''stream'' = Inr (JBool True)"
    and "bridge_request_body originalRequestBody = Inr requestBody"
    and "post_chat requestBody = Inr resp"
    and "ok resp"
    and "resp_json resp = Some result"
    and "member_of result ''success'' = JBool True"
    and "member_of result ''response'' = JString R"
    and "ToNumber P (counter_source result ''promptTokens'') = Inr np"
    and "ToNumber P (counter_source result ''completionTokens'') = Inr nc"
    and "ToNumber P (counter_source result ''totalTokens'') = Inr nt"
  shows "\<exists>first final.
           adapter_fetch P now post_chat modelNameOption (Inr originalRequestBody) =
             Inr (EventStream [Data first, Data final, Done])
         \<and> member_of (choice0 first) ''delta'' = JObject [(''content'', JString R)]
         \<and> member_of (choice0 final) ''delta'' = JObject []
         \<and> member_of (choice0 final) ''finish_reason'' = JString ''stop''
         \<and> member_of final ''usage'' =
             JObject [
               (''prompt_tokens'', delivered (coerced (counter_source result ''promptTokens'') np)),
               (''completion_tokens'', delivered (coerced (counter_source result ''completionTokens'') nc)),
               (''total_tokens'', delivered (coerced (counter_source result ''totalTokens'') nt))]
         \<and> concat (map event_content [Data first, Data final, Done]) = R"
proof -
  have nn: "\<not> nullish result"
    using assms(6) member_not_undefined[of result "''success''"] by simp
  note u = usage_value[OF nn assms(8-10)]
  obtain final where f: "finalChunk P now modelNameOption result = Inr final"
    using u by (simp add: finalChunk_def)
  have run: "adapter_fetch P now post_chat modelNameOption (Inr originalRequestBody) =
      Inr (EventStream [Data (wire (contentChunk now modelNameOption result)), Data (wire final), Done])"
    using adapter_fetch_success[where post_chat = post_chat and requestBody = requestBody
        and P = P and now = now and modelNameOption = modelNameOption,
        OF assms(1) assms(2) assms(3) assms(4) assms(5)]
      assms(6) f by simp
  show ?thesis
    unfolding run
    using wire_contentChunk[OF assms(7), of now modelNameOption] wire_finalChunk[OF f u]
    by simp
qed

theorem stream_three_events_witness:
  "get chat_request ''stream'' = Inr (JBool True)
   \<and> bridge_request_body chat_request = Inr question
   \<and> ok counted_reply
   \<and> member_of counted_result ''success'' = JBool True
   \<and> member_of counted_result ''response'' = JString ''4''
   \<and> (\<exists>first final.
         adapter_fetch sample_prims sample_clock (reply_with counted_reply) ''claude'' (Inr chat_request) =
           Inr (EventStream [Data first, Data final, Done])
       \<and> member_of (choice0 first) ''delta'' = JObject [(''content'', JString ''4'')]
       \<and> member_of (choice0 final) ''delta'' = JObject []
       \<and> member_of (choice0 final) ''finish_reason'' = JString ''stop''
       \<and> member_of final ''usage'' =
           JObject [(''prompt_tokens'', JNum (Fin 12)), (''completion_tokens'', JNum (Fin 0)),
                    (''total_tokens'', JNum (Fin 15))]
       \<and> concat (map event_content [Data first, Data final, Done]) = ''4'')
   \<and> (\<exists>first final.
         adapter_fetch sample_prims sample_clock (post_to_bridge one_model_host) ''claude''
             (Inr chat_request) =
           Inr (EventStream [Data first, Data final, Done])
       \<and> member_of (choice0 first) ''delta'' = JObject [(''content'', JString ''4'')]
       \<and> member_of (choice0 final) ''delta'' = JObject []
       \<and> member_of (choice0 final) ''finish_reason'' = JString ''stop''
       \<and> member_of final ''usage'' =
           JObject [(''prompt_tokens'', JNum (Fin 0)), (''completion_tokens'', JNum (Fin 0)),
                    (''total_tokens'', JNum (Fin 0))]
       \<and> concat (map event_content [Data first, Data final, Done]) = ''4'')"
proof -
  have a: "get chat_request ''stream'' = Inr (JBool True)"
    by (simp add: chat_request_def get_def)
  have c: "ok counted_reply" "resp_json counted_reply = Some counted_result"
    "reply_with counted_reply question = Inr counted_reply"
    by (simp_all add: ok_def counted_reply_def reply_with_def)
  have s: "member_of counted_result ''success'' = JBool True"
    "member_of counted_result ''response'' = JString ''4''"
    by (simp_all add: counted_result_def)
  define answer where "answer = JObject [(''success'', JBool True), (''response'', JString ''4''),
             (''model'', JObject [(''id'', JString ''gpt-4o''), (''vendor'', JString ''copilot''),
                (''family'', JString ''gpt''), (''name'', JString ''GPT-4o'')])]"
  have p: "post_to_bridge one_model_host question =
     Inr \<lparr> resp_status = 200, resp_statusText = ''OK'', resp_json = Some answer \<rparr>"
    unfolding answer_def by (rule post_to_bridge_one_model_host)
  have k: "ok \<lparr> resp_status = 200, resp_statusText = ''OK'', resp_json = Some answer \<rparr>"
    "resp_json \<lparr> resp_status = 200, resp_statusText = ''OK'', resp_json = Some answer \<rparr> = Some answer"
    "member_of answer ''success'' = JBool True" "member_of answer ''response'' = JString ''4''"
    by (simp_all add: ok_def answer_def)
  have n: "ToNumber sample_prims (counter_source answer key) = Inr NaN"
    if "key \<in> {''promptTokens'', ''completionTokens'', ''totalTokens''}" for key
    using that by (auto simp: counter_source_def answer_def opt_get_def)
  have z: "counter_source answer ''promptTokens'' = JUndefined"
    "counter_source answer ''completionTokens'' = JUndefined"
    "counter_source answer ''totalTokens'' = JUndefined"
    by (simp_all add: counter_source_def answer_def opt_get_def)
  show ?thesis
    using a bridge_request_body_chat_request c(1) s
      stream_three_events[where post_chat = "reply_with counted_reply" and requestBody = question
        and now = sample_clock and modelNameOption = "''claude''",
        OF a bridge_request_body_chat_request c(3) c(1) c(2) s counted_sources(1-3)]
      stream_three_events[where post_chat = "post_to_bridge one_model_host" and requestBody = question
        and now = sample_clock and modelNameOption = "''claude''" and P = sample_prims,
        OF a bridge_request_body_chat_request p k n n n]
    by (simp add: counted_sources(4-6) z coerced_def)
qed

text \<open>
  Claim C1 as stated fails on a successful reply whose \<open>promptTokens\<close> is the object
  \<open>{"toString": 1}\<close>: \<open>Number\<close> throws on it while the final chunk is built in the
  stream's \<open>start\<close>, the constructor of the stream throws, and the override raises a
  500 \<open>Response\<close> instead of handing back a stream.
\<close>

theorem stream_lost_to_odd_counter:
  "get chat_request ''stream'' = Inr (JBool True)
   \<and> ok odd_reply
   \<and> member_of odd_result ''success'' = JBool True
   \<and> member_of odd_result ''response'' = JString ''4''
   \<and> adapter_fetch sample_prims sample_clock (reply_with odd_reply) ''claude'' (Inr chat_request) =
       Inl (ThrownResponse 500
         (JObject [(''error'', JString ''Cannot convert object to primitive value'')]))"
proof -
  have a: "get chat_request ''stream'' = Inr (JBool True)"
    by (simp add: chat_request_def get_def)
  have c: "ok odd_reply" "resp_json odd_reply = Some odd_result"
    "reply_with odd_reply question = Inr odd_reply"
    by (simp_all add: ok_def odd_reply_def reply_with_def)
  have s: "member_of odd_result ''success'' = JBool True"
    "member_of odd_result ''response'' = JString ''4''"
    by (simp_all add: odd_result_def)
  have "usage_counter sample_prims odd_result ''promptTokens'' =
     Inl (TypeError ''Cannot convert object to primitive value'')"
    by (simp add: usage_counter_def odd_result_def get_def opt_get_def)
  then have "finalChunk sample_prims sample_clock ''claude'' odd_result =
     Inl (TypeError ''Cannot convert object to primitive value'')"
    by (simp add: finalChunk_def usage_def)
  then show ?thesis
    using a c(1) s
      adapter_fetch_success[where post_chat = "reply_with odd_reply" and requestBody = question
        and P = sample_prims and now = sample_clock and modelNameOption = "''claude''",
        OF a bridge_request_body_chat_request c(3) c(1) c(2)]
    by simp
qed

text \<open>
  Claim C7, as the code has it. On every bridge reply the adapter transforms and on whose
  three counter fields \<open>Number\<close> does not throw, each usage counter is computed without
  an exception and is never NaN: it is 0 when the source field is missing (from the
  reply's \<open>model\<close>, or because \<open>model\<close> itself is missing) or otherwise falsy and when
  \<open>Number\<close> of the field is NaN, and it is \<open>Number\<close> of the field in every other case.
  The final chunk of the stream and the non-streaming response carry the same three
  counters, which their reader parses as these numbers where they are finite and as
  \<open>null\<close> where they are infinite. \<open>Number\<close> throws on no value but an array and an
  object with an own \<open>toString\<close> property.
\<close>

theorem usage_counters_coerced:
  assumes "\<not> nullish result"
    and "ToNumber P (counter_source result ''promptTokens'') = Inr np"
    and "ToNumber P (counter_source result ''completionTokens'') = Inr nc"
    and "ToNumber P (counter_source result ''totalTokens'') = Inr nt"
  shows "usage_counter P result ''promptTokens'' =
           Inr (coerced (counter_source result ''promptTokens'') np)
       \<and> usage_counter P result ''completionTokens'' =
           Inr (coerced (counter_source result ''completionTokens'') nc)
       \<and> usage_counter P result ''totalTokens'' =
           Inr (coerced (counter_source result ''totalTokens'') nt)
       \<and> (\<exists>final whole.
             finalChunk P now modelNameOption result = Inr final
           \<and> openAIResponse P modelNameOption result = Inr whole
           \<and> member_of (wire final) ''usage'' =
               JObject [
                 (''prompt_tokens'', delivered (coerced (counter_source result ''promptTokens'') np)),
                 (''completion_tokens'', delivered (coerced (counter_source result ''completionTokens'') nc)),
                 (''total_tokens'', delivered (coerced (counter_source result ''totalTokens'') nt))]
           \<and> member_of (wire whole) ''usage'' = member_of (wire final) ''usage'')
       \<and> (\<forall>v n. coerced v n \<noteq> NaN
                \<and> (v = JUndefined \<or> \<not> truthy v \<or> n = NaN \<longrightarrow> coerced v n = Fin 0)
                \<and> (truthy v \<and> n \<noteq> NaN \<longrightarrow> coerced v n = n))
       \<and> (\<forall>v e. ToNumber P v = Inl e \<longrightarrow>
             is_array v \<or> (\<exists>kvs. v = JObject kvs \<and> map_of kvs ''toString'' \<noteq> None))"
proof -
  note u = usage_value[OF assms]
  obtain final where f: "finalChunk P now modelNameOption result = Inr final"
    using u by (simp add: finalChunk_def)
  obtain whole where w: "openAIResponse P modelNameOption result = Inr whole"
    using u by (simp add: openAIResponse_def)
  have "member_of (wire final) ''usage'' =
               JObject [
                 (''prompt_tokens'', delivered (coerced (counter_source result ''promptTokens'') np)),
                 (''completion_tokens'', delivered (coerced (counter_source result ''completionTokens'') nc)),
                 (''total_tokens'', delivered (coerced (counter_source result ''totalTokens'') nt))]"
    using wire_finalChunk[OF f u] by simp
  moreover have "member_of (wire whole) ''usage'' = member_of (wire final) ''usage''"
    using wire_finalChunk[OF f u] wire_openAIResponse[OF w u] by simp
  moreover have "\<forall>v n. coerced v n \<noteq> NaN
                \<and> (v = JUndefined \<or> \<not> truthy v \<or> n = NaN \<longrightarrow> coerced v n = Fin 0)
                \<and> (truthy v \<and> n \<noteq> NaN \<longrightarrow> coerced v n = n)"
    by (auto simp: coerced_def)
  moreover have "\<forall>v e. ToNumber P v = Inl e \<longrightarrow>
             is_array v \<or> (\<exists>kvs. v = JObject kvs \<and> map_of kvs ''toString'' \<noteq> None)"
    using ToNumber_throws_only by blast
  ultimately show ?thesis
    using f w usage_counter_value[OF assms(1)] assms(2-4) by blast
qed

theorem usage_counters_coerced_witness:
  "\<not> nullish counted_result
   \<and> ToNumber sample_prims (counter_source counted_result ''promptTokens'') = Inr (Fin 12)
   \<and> ToNumber sample_prims (counter_source counted_result ''completionTokens'') = Inr NaN
   \<and> ToNumber sample_prims (counter_source counted_result ''totalTokens'') = Inr (Fin 15)
   \<and> usage_counter sample_prims counted_result ''promptTokens'' = Inr (Fin 12)
   \<and> usage_counter sample_prims counted_result ''completionTokens'' = Inr (Fin 0)
   \<and> usage_counter sample_prims counted_result ''totalTokens'' = Inr (Fin 15)
   \<and> usage_counter sample_prims (JObject [(''success'', JBool True)]) ''promptTokens'' = Inr (Fin 0)
   \<and> (\<exists>final whole.
         finalChunk sample_prims sample_clock ''claude'' counted_result = Inr final
       \<and> openAIResponse sample_prims ''claude'' counted_result = Inr whole
       \<and> member_of (wire final) ''usage'' =
           JObject [(''prompt_tokens'', JNum (Fin 12)), (''completion_tokens'', JNum (Fin 0)),
                    (''total_tokens'', JNum (Fin 15))]
       \<and> member_of (wire whole) ''usage'' = member_of (wire final) ''usage'')"
proof -
  have nn: "\<not> nullish counted_result" by (simp add: counted_result_def)
  have m: "\<not> nullish (JObject [(''success'', JBool True)])"
    "ToNumber sample_prims (counter_source (JObject [(''success'', JBool True)]) k) = Inr NaN" for k
    by (simp_all add: counter_source_def opt_get_def)
  show ?thesis
    using nn counted_sources
      usage_counters_coerced[OF nn counted_sources(1-3), of sample_clock "''claude''"]
      usage_counters_coerced[OF m(1) m(2) m(2) m(2), of sample_clock "''claude''"]
    by (simp add: coerced_def counter_source_def opt_get_def)
qed

text \<open>
  Claim C7 as stated fails twice. On the counter \<open>{"toString": 1}\<close> the coercion
  throws, and the override raises a 500 \<open>Response\<close>. On an infinite counter (the JSON
  number \<open>1e999\<close> parses to one) the coercion gives infinity, which the serialised
  response carries as \<open>null\<close>, not as a number.
\<close>

theorem counter_throws_or_is_null:
  "usage_counter sample_prims odd_result ''promptTokens'' =
     Inl (TypeError ''Cannot convert object to primitive value'')
   \<and> adapter_fetch sample_prims sample_clock (reply_with odd_reply) ''claude'' (Inr plain_request) =
       Inl (ThrownResponse 500
         (JObject [(''error'', JString ''Cannot convert object to primitive value'')]))
   \<and> adapter_fetch sample_prims sample_clock (reply_with infinite_reply) ''claude'' (Inr plain_request) =
       Inr (JsonResponse (JObject [
         (''choices'', JArray [JObject [
            (''index'', JNum (Fin 0)),
            (''message'', JObject [(''content'', JString ''4''), (''role'', JString ''assistant'')]),
            (''finish_reason'', JString ''stop'')]]),
         (''model'', JString ''gpt-4o''),
         (''usage'', JObject [(''prompt_tokens'', JNull), (''completion_tokens'', JNum (Fin 0)),
                              (''total_tokens'', JNum (Fin 0))])]))"
proof -
  have a: "usage_counter sample_prims odd_result ''promptTokens'' =
     Inl (TypeError ''Cannot convert object to primitive value'')"
    by (simp add: usage_counter_def odd_result_def get_def opt_get_def)
  have b: "adapter_fetch sample_prims sample_clock (reply_with odd_reply) ''claude'' (Inr plain_request) =
       Inl (ThrownResponse 500
         (JObject [(''error'', JString ''Cannot convert object to primitive value'')]))"
  proof -
    have "usage sample_prims odd_result = Inl (TypeError ''Cannot convert object to primitive value'')"
      using a by (simp add: usage_def)
    then have "openAIResponse sample_prims ''claude'' odd_result =
        Inl (TypeError ''Cannot convert object to primitive value'')"
      by (simp add: openAIResponse_def)
    then show ?thesis
      using adapter_fetch_success[where originalRequestBody = plain_request and stream = JUndefined
          and requestBody = question and post_chat = "reply_with odd_reply" and resp = odd_reply
          and result = odd_result and P = sample_prims and now = sample_clock
          and modelNameOption = "''claude''", OF _ bridge_request_body_plain_request]
      by (simp add: reply_with_def odd_reply_def ok_def)
         (simp add: plain_request_def odd_result_def get_def)
  qed
  have c: "usage sample_prims infinite_result =
     Inr (JObject [(''prompt_tokens'', JNum PosInf), (''completion_tokens'', JNum (Fin 0)),
                   (''total_tokens'', JNum (Fin 0))])"
    by (simp add: usage_def usage_counter_def infinite_result_def get_def opt_get_def)
  have d: "adapter_fetch sample_prims sample_clock (reply_with infinite_reply) ''claude'' (Inr plain_request) =
       Inr (JsonResponse (JObject [
         (''choices'', JArray [JObject [
            (''index'', JNum (Fin 0)),
            (''message'', JObject [(''content'', JString ''4''), (''role'', JString ''assistant'')]),
            (''finish_reason'', JString ''stop'')]]),
         (''model'', JString ''gpt-4o''),
         (''usage'', JObject [(''prompt_tokens'', JNull), (''completion_tokens'', JNum (Fin 0)),
                              (''total_tokens'', JNum (Fin 0))])]))"
  proof -
    have "openAIResponse sample_prims ''claude'' infinite_result =
        Inr (JObject [
         (''choices'', JArray [JObject [
            (''index'', JNum (Fin 0)),
            (''message'', JObject [(''content'', JString ''4''), (''role'', JString ''assistant'')]),
            (''finish_reason'', JString ''stop'')]]),
         (''model'', JString ''gpt-4o''),
         (''usage'', JObject [(''prompt_tokens'', JNum PosInf), (''completion_tokens'', JNum (Fin 0)),
                              (''total_tokens'', JNum (Fin 0))])])"
      using c by (simp add: openAIResponse_def)
         (simp add: infinite_result_def result_model_def opt_get_def or_js_def)
    then show ?thesis
      using adapter_fetch_success[where originalRequestBody = plain_request and stream = JUndefined
          and requestBody = question and post_chat = "reply_with infinite_reply"
          and resp = infinite_reply
          and result = infinite_result and P = sample_prims and now = sample_clock
          and modelNameOption = "''claude''", OF _ bridge_request_body_plain_request]
      by (simp add: reply_with_def infinite_reply_def ok_def)
         (simp add: plain_request_def infinite_result_def get_def)
  qed
  show ?thesis using a b d by simp
qed

text \<open>
  Claim C8, as the code has it. Whenever the request reached the bridge, the override
  raises one \<open>Response\<close> of status 500 whose body holds a message and nothing else.
  On a status outside 200-299 the message is \<open>VS Code LLM Bridge error: \<close> followed by
  the HTTP status text; the error string of the bridge's body is not part of it. On a 2xx
  reply with \<open>success = false\<close> and the error string \<open>e\<close> the message is
  \<open>VS Code LLM error: \<close> followed by \<open>e\<close>.
\<close>

theorem bridge_failure_raised:
  assumes "get originalRequestBody ''stream'' = Inr stream"
    and "bridge_request_body originalRequestBody = Inr requestBody"
    and "post_chat requestBody = Inr resp"
  shows "(\<not> ok resp \<longrightarrow>
            adapter_fetch P now post_chat modelNameOption (Inr originalRequestBody) =
              Inl (ThrownResponse 500 (JObject [(''error'',
                JString (''VS Code LLM Bridge error: '' @ resp_statusText resp))])))
       \<and> (ok resp \<and> resp_json resp = Some result \<and> member_of result ''success'' = JBool False
            \<and> member_of result ''error'' = JString e \<longrightarrow>
            adapter_fetch P now post_chat modelNameOption (Inr originalRequestBody) =
              Inl (ThrownResponse 500 (JObject [(''error'',
                JString (''VS Code LLM error: '' @ e))])))"
  using assms member_not_undefined[of result "''success''"]
  by (auto simp: adapter_fetch_def fetch_try_def get_def)

theorem bridge_failure_raised_witness:
  "get chat_request ''stream'' = Inr (JBool True)
   \<and> bridge_request_body chat_request = Inr question
   \<and> post_to_bridge failing_host question =
       Inr \<lparr> resp_status = 500, resp_statusText = ''Internal Server Error'',
             resp_json = Some (JObject [(''success'', JBool False), (''error'', JString [])]) \<rparr>
   \<and> adapter_fetch sample_prims sample_clock (post_to_bridge failing_host) ''claude'' (Inr chat_request) =
       Inl (ThrownResponse 500 (JObject [(''error'',
         JString ''VS Code LLM Bridge error: Internal Server Error'')]))
   \<and> adapter_fetch sample_prims sample_clock
        (\<lambda>b. Inr \<lparr> resp_status = 200, resp_statusText = ''OK'',
                    resp_json = Some (JObject [(''success'', JBool False), (''error'', JString ''boom'')]) \<rparr>)
        ''claude'' (Inr chat_request) =
       Inl (ThrownResponse 500 (JObject [(''error'', JString ''VS Code LLM error: boom'')]))"
proof -
  have a: "get chat_request ''stream'' = Inr (JBool True)"
    by (simp add: chat_request_def get_def)
  note b = bridge_request_body_chat_request
  note c = post_to_bridge_failing_host
  show ?thesis
    using a b c
      bridge_failure_raised[where originalRequestBody = chat_request and stream = "JBool True"
        and requestBody = question and post_chat = "post_to_bridge failing_host"
        and P = sample_prims and now = sample_clock and modelNameOption = "''claude''", OF a b c]
      bridge_failure_raised[where originalRequestBody = chat_request and stream = "JBool True"
        and requestBody = question
        and post_chat = "\<lambda>b. Inr \<lparr> resp_status = 200, resp_statusText = ''OK'',
                    resp_json = Some (JObject [(''success'', JBool False), (''error'', JString ''boom'')]) \<rparr>"
        and result = "JObject [(''success'', JBool False), (''error'', JString ''boom'')]"
        and e = "''boom''"
        and P = sample_prims and now = sample_clock and modelNameOption = "''claude''", OF a b]
    by (simp add: ok_def)
qed

text \<open>
  Claim C8 as stated fails on the bridge's own 404 reply: with no model available the
  bridge answers 404 with the error string \<open>No language models available\<close>, and the
  error the adapter raises reads \<open>VS Code LLM Bridge error: Not Found\<close>, in which that
  string does not occur.
\<close>

theorem bridge_error_string_dropped:
  "adapter_fetch sample_prims sample_clock (post_to_bridge no_model_host) ''claude'' (Inr chat_request) =
     Inl (ThrownResponse 500 (JObject [(''error'', JString ''VS Code LLM Bridge error: Not Found'')]))
   \<and> reply (api_chat no_model_host question) =
       \<lparr> status = 404,
         body = JObject [(''success'', JBool False),
                         (''error'', JString ''No language models available'')] \<rparr>
   \<and> \<not> sublist ''No language models available'' ''VS Code LLM Bridge error: Not Found''"
proof -
  note b = bridge_request_body_chat_request
  have r: "reply (api_chat no_model_host question) = no_models"
    by (simp add: api_chat_def chat_try_def question_def no_model_host_def select_models_def Let_def)
  have w: "wire question = question" by (simp add: question_def)
  have p: "post_to_bridge no_model_host question =
       Inr \<lparr> resp_status = 404, resp_statusText = ''Not Found'',
             resp_json = Some (JObject [(''success'', JBool False),
                         (''error'', JString ''No language models available'')]) \<rparr>"
    by (simp add: post_to_bridge_def w r no_models_def reason_phrase_def)
  have s: "\<not> sublist ''No language models available'' ''VS Code LLM Bridge error: Not Found''"
    by code_simp
  show ?thesis using b r p s
    by (simp add: adapter_fetch_def fetch_try_def chat_request_def get_def ok_def no_models_def)
qed



section \<open>Bridge Server: claims\<close>

text \<open>
  Claim C2, as the code has it. For every parsed request body, when \<open>messages\<close> is
  missing or is not an array the handler replies 400 with \<open>success = false\<close> and the
  error \<open>Messages array is required\<close>, and calls no model; when \<open>messages\<close> is an
  array, the empty one included, the reply is never 400.
\<close>

theorem messages_must_be_array:
  assumes "\<not> nullish req_body"
  shows "(\<not> is_array (member_of req_body ''messages'') \<longrightarrow>
            api_chat H req_body =
              \<lparr> reply = \<lparr> status = 400,
                          body = JObject [(''success'', JBool False),
                                          (''error'', JString ''Messages array is required'')] \<rparr>,
                invoked = [] \<rparr>)
       \<and> (is_array (member_of req_body ''messages'') \<longrightarrow> status (reply (api_chat H req_body)) \<noteq> 400)"
proof (cases "is_array (member_of req_body ''messages'')")
  case False
  then show ?thesis
    using chat_try_not_array[OF assms False, of H] by (simp add: api_chat_def bad_request_def)
next
  case True
  then show ?thesis
    using chat_try_cases[OF assms True, of H]
    by (auto simp: api_chat_reply server_error_def no_models_def chat_ok_def)
qed

theorem messages_must_be_array_witness:
  "\<not> nullish (JObject [(''messages'', JString ''2+2?'')])
   \<and> \<not> is_array (member_of (JObject [(''messages'', JString ''2+2?'')]) ''messages'')
   \<and> api_chat one_model_host (JObject [(''messages'', JString ''2+2?'')]) =
       \<lparr> reply = \<lparr> status = 400,
                   body = JObject [(''success'', JBool False),
                                   (''error'', JString ''Messages array is required'')] \<rparr>,
         invoked = [] \<rparr>
   \<and> is_array (member_of question ''messages'')
   \<and> status (reply (api_chat one_model_host question)) \<noteq> 400"
  using messages_must_be_array[of "JObject [(''messages'', JString ''2+2?'')]" one_model_host]
        messages_must_be_array[of question one_model_host]
  by (simp add: question_def)

text \<open>
  Claim C2 as stated fails on the empty array: \<open>{messages: []}\<close> passes the check, the
  first model is invoked with no message, and the reply is 200.
\<close>

theorem empty_messages_accepted:
  "api_chat one_model_host (JObject [(''messages'', JArray [])]) =
     \<lparr> reply = \<lparr> status = 200,
                 body = JObject [(''success'', JBool True), (''response'', JString ''4''),
                   (''model'', JObject [(''id'', JString ''gpt-4o''), (''vendor'', JString ''copilot''),
                      (''family'', JString ''gpt''), (''name'', JString ''GPT-4o'')])] \<rparr>,
       invoked = [(answering_model, [], JObject [])] \<rparr>"
  by (simp add: api_chat_def chat_try_def one_model_host_def answering_model_def
      select_models_def chat_ok_def Let_def)



text \<open>
  Claim C5, as the code has it. When \<open>messages\<close> is an array, the reply's \<open>success\<close>
  is \<open>true\<close> or \<open>false\<close>; it is \<open>true\<close> exactly when \<open>response\<close> is present and
  \<open>error\<close> absent, and never together with an \<open>error\<close>. A reply with
  \<open>success = false\<close> has as \<open>error\<close> either \<open>No language models available\<close> or what
  serialisation leaves of the \<open>message\<close> of the caught value: the message string of an
  \<open>Error\<close>, whatever it is, and nothing at all when the caught value has no \<open>message\<close>.
\<close>

theorem reply_success_xor_error:
  assumes "\<not> nullish req_body" and "is_array (member_of req_body ''messages'')"
  shows "(member_of (chat_body H req_body) ''success'' = JBool True
            \<or> member_of (chat_body H req_body) ''success'' = JBool False)
       \<and> (member_of (chat_body H req_body) ''success'' = JBool True \<longleftrightarrow>
            member_of (chat_body H req_body) ''response'' \<noteq> JUndefined
          \<and> member_of (chat_body H req_body) ''error'' = JUndefined)
       \<and> \<not> (member_of (chat_body H req_body) ''success'' = JBool True
            \<and> member_of (chat_body H req_body) ''error'' \<noteq> JUndefined)
       \<and> (member_of (chat_body H req_body) ''success'' = JBool False \<longrightarrow>
            member_of (chat_body H req_body) ''error'' = JString ''No language models available''
          \<or> (\<exists>ex. fst (chat_try H req_body) = Inl ex
                \<and> member_of (chat_body H req_body) ''error'' =
                    (if caught_message ex = JUndefined then JUndefined
                     else wire (caught_message ex))))
       \<and> (\<forall>m. fst (chat_try H req_body) = Inl (Caught (Error m)) \<longrightarrow>
            member_of (chat_body H req_body) ''error'' = JString m)"
  using chat_try_cases[OF assms, of H] server_error_body
  by (auto simp: chat_body_def api_chat_reply no_models_def chat_ok_def)

theorem reply_success_xor_error_witness:
  "\<not> nullish question \<and> is_array (member_of question ''messages'')
   \<and> member_of (chat_body one_model_host question) ''success'' = JBool True
   \<and> member_of (chat_body one_model_host question) ''response'' \<noteq> JUndefined
   \<and> member_of (chat_body one_model_host question) ''error'' = JUndefined
   \<and> member_of (chat_body no_model_host question) ''success'' = JBool False
   \<and> member_of (chat_body no_model_host question) ''error'' = JString ''No language models available''
   \<and> fst (chat_try failing_host question) = Inl (Caught (Error []))
   \<and> member_of (chat_body failing_host question) ''error'' = JString []"
proof -
  have a: "\<not> nullish question" "is_array (member_of question ''messages'')"
    by (simp_all add: question_def)
  have s: "member_of (chat_body one_model_host question) ''success'' = JBool True"
    by (simp add: chat_body_def api_chat_def chat_try_def question_def one_model_host_def
        answering_model_def select_models_def to_chat_message_def get_def chat_ok_def Let_def)
  have n: "member_of (chat_body no_model_host question) ''error'' = JString ''No language models available''"
    by (simp add: chat_body_def api_chat_def chat_try_def question_def no_model_host_def
        select_models_def no_models_def Let_def)
  have f: "fst (chat_try failing_host question) = Inl (Caught (Error []))"
    by (simp add: chat_try_def question_def failing_host_def failing_model_def
        select_models_def to_chat_message_def get_def Let_def)
  show ?thesis
    using a s n f
      reply_success_xor_error[OF a, of one_model_host]
      reply_success_xor_error[OF a, of no_model_host]
      reply_success_xor_error[OF a, of failing_host]
    by auto
qed

text \<open>
  Claim C5 as stated fails on a failing host call. A model whose \<open>sendRequest\<close> throws
  \<open>new Error()\<close> makes the reply \<open>{success: false, error: ""}\<close>, and one that throws
  a string makes it \<open>{success: false}\<close>: neither has \<open>success = true\<close> or a non-empty
  error string.
\<close>

theorem error_empty_or_absent:
  "is_array (member_of question ''messages'')
   \<and> reply (api_chat failing_host question) =
       \<lparr> status = 500, body = JObject [(''success'', JBool False), (''error'', JString [])] \<rparr>
   \<and> reply (api_chat string_throwing_host question) =
       \<lparr> status = 500, body = JObject [(''success'', JBool False)] \<rparr>"
  by (simp add: api_chat_def chat_try_def question_def failing_host_def failing_model_def
      string_throwing_host_def string_throwing_model_def
      select_models_def to_chat_message_def get_def server_error_def Let_def)

text \<open>
  Claim C4. When the server variable is \<open>null\<close> and listening on the preferred port
  \<open>P\<close> fails with \<open>EADDRINUSE\<close>, the ports asked for are \<open>P\<close> and \<open>P + 1\<close> and no
  other. If \<open>P + 1\<close> can be bound the server runs there and the start is announced;
  otherwise the start fails for good: the second server has no \<open>error\<close> listener, so its
  failure is an exception that nothing catches, the server is not marked running and
  nothing more is tried.
\<close>

theorem port_fallback_once:
  assumes "server s = None"
    and "listen (serverPort s) = ErrorEvent ''EADDRINUSE'' msg"
  shows "listen_calls (startServer listen s) = listen_calls s @ [serverPort s, serverPort s + 1]
       \<and> serverPort (startServer listen s) = serverPort s + 1
       \<and> (if listen (serverPort s + 1) = Listening
          then server (startServer listen s) =
                 Some \<lparr> listen_port = serverPort s + 1, has_error_listener = False \<rparr>
             \<and> serverRunning (startServer listen s)
             \<and> uncaught (startServer listen s) = uncaught s
             \<and> notifications (startServer listen s) = notifications s @
                 [Information (''LLM Bridge Server started on http://localhost:'' @ dec (serverPort s + 1))]
          else (\<exists>e. uncaught (startServer listen s) = uncaught s @ [e])
             \<and> serverRunning (startServer listen s) = serverRunning s
             \<and> notifications (startServer listen s) = notifications s)"
  using assms
  by (cases "listen (serverPort s + 1)")
     (simp_all add: startServer_def on_error_def started_def Let_def)

theorem port_fallback_once_witness:
  "server initial = None
   \<and> busy_then_free (serverPort initial) = ErrorEvent ''EADDRINUSE'' ''listen EADDRINUSE''
   \<and> listen_calls (startServer busy_then_free initial) = [3000, 3001]
   \<and> serverPort (startServer busy_then_free initial) = 3001
   \<and> serverRunning (startServer busy_then_free initial)
   \<and> uncaught (startServer busy_then_free initial) = []
   \<and> listen_calls (startServer (\<lambda>port. ErrorEvent ''EADDRINUSE'' ''listen EADDRINUSE'') initial) = [3000, 3001]
   \<and> \<not> serverRunning (startServer (\<lambda>port. ErrorEvent ''EADDRINUSE'' ''listen EADDRINUSE'') initial)
   \<and> (\<exists>e. uncaught (startServer (\<lambda>port. ErrorEvent ''EADDRINUSE'' ''listen EADDRINUSE'') initial) = [e])"
  using port_fallback_once[of initial busy_then_free "''listen EADDRINUSE''"]
        port_fallback_once[of initial "\<lambda>port. ErrorEvent ''EADDRINUSE'' ''listen EADDRINUSE''"
          "''listen EADDRINUSE''"]
  by (simp add: initial_def busy_then_free_def)

text \<open>
  Claim C9, as the code has it. \<open>stopServer\<close> on a stopped server (the variable is
  \<open>null\<close>) changes nothing and shows the warning; neither it nor the close callback
  raises. Once the callback of the first stop has run the server is stopped, and a second
  stop then shows the warning and leaves it stopped.
\<close>

theorem stop_when_stopped_warns:
  "(server s = None \<longrightarrow>
      stopServer s = s\<lparr> notifications := notifications s @ [Warning ''Server is not running!''] \<rparr>)
   \<and> uncaught (stopServer s) = uncaught s
   \<and> uncaught (closed s) = uncaught s
   \<and> server (closed (stopServer s)) = None
   \<and> \<not> serverRunning (closed (stopServer s))
   \<and> (server s \<noteq> None \<longrightarrow>
        stopServer (closed (stopServer s)) =
          (closed (stopServer s))\<lparr> notifications :=
             notifications (closed (stopServer s)) @ [Warning ''Server is not running!''] \<rparr>)"
  by (simp add: stopServer_def closed_def)

theorem stop_when_stopped_warns_witness:
  "server initial = None
   \<and> stopServer initial = initial\<lparr> notifications := [Warning ''Server is not running!''] \<rparr>
   \<and> server running \<noteq> None
   \<and> server (stopServer (closed (stopServer running))) = None
   \<and> last (notifications (stopServer (closed (stopServer running)))) = Warning ''Server is not running!''"
proof -
  have r: "server running \<noteq> None"
    by (simp add: running_def startServer_def all_free_def initial_def started_def Let_def)
  show ?thesis
    using r stop_when_stopped_warns[of initial] stop_when_stopped_warns[of running]
    by (simp add: initial_def)
qed

text \<open>
  Claim C9 as stated fails for two stops in a row: the variable is set to \<open>null\<close> only
  in the close callback, so a second call made before it has run finds the server still
  there, calls \<open>close\<close> again and shows no warning.
\<close>

theorem second_stop_without_warning:
  "server running \<noteq> None
   \<and> notifications (stopServer (stopServer running)) = notifications running
   \<and> Warning ''Server is not running!'' \<notin> set (notifications (stopServer (stopServer running)))
   \<and> server (stopServer (stopServer running)) \<noteq> None
   \<and> close_calls (stopServer (stopServer running)) = 2"
  by (simp add: running_def startServer_def all_free_def initial_def started_def stopServer_def Let_def)

end
